theory Spec2Isabelle
  imports Main "HOL-Library.AList"
begin

section \<open>Python values, exceptions and string rendering\<close>

text \<open>
  The module works on dynamically typed values: parsed JSON bodies, token payloads and
  status codes. A value is one of the shapes a JSON parser produces (floating point
  numbers are left out). A dictionary is the list of its items; a key is looked up with
  \<open>map_of\<close>.
\<close>

datatype pyval =
    PNone
  | PBool bool
  | PInt int
  | PStr string
  | PList "pyval list"
  | PDict "(string \<times> pyval) list"

text \<open>
  An HTTP response as the \<open>requests\<close> library hands it over: the status code and the
  body parsed as JSON (\<open>None\<close> when the body is not JSON, where \<open>resp.json()\<close> raises
  \<open>ValueError\<close>).
\<close>

record response =
  status_code :: int
  json_body :: "pyval option"

datatype error =
    KeyError string
  | IndexError
  | AttributeError
  | TypeError
  | ValueError
  | HTTPError response
  | RequestException string

text \<open>Sequencing of fallible steps: the first exception raised is the result.\<close>

definition bind_err :: "error + 'a \<Rightarrow> ('a \<Rightarrow> error + 'b) \<Rightarrow> error + 'b" where
  "bind_err r f = (case r of Inl e \<Rightarrow> Inl e | Inr x \<Rightarrow> f x)"

text \<open>Truth value of a Python object, as \<open>if x\<close> tests it.\<close>

fun truthy :: "pyval \<Rightarrow> bool" where
  "truthy PNone = False"
| "truthy (PBool b) = b"
| "truthy (PInt i) = (i \<noteq> 0)"
| "truthy (PStr s) = (s \<noteq> [])"
| "truthy (PList xs) = (xs \<noteq> [])"
| "truthy (PDict kvs) = (kvs \<noteq> [])"

text \<open>\<open>str(n)\<close> for an integer: its decimal digits, with a minus sign when negative.\<close>

fun digit_char :: "nat \<Rightarrow> char" where
  "digit_char n = ''0123456789'' ! (n mod 10)"

fun str_nat :: "nat \<Rightarrow> string" where
  "str_nat n = (if n < 10 then [digit_char n] else str_nat (n div 10) @ [digit_char n])"

declare str_nat.simps [simp del]

definition str_int :: "int \<Rightarrow> string" where
  "str_int i = (if i < 0 then CHR ''-'' # str_nat (nat (- i)) else str_nat (nat i))"

text \<open>
  What \<open>'%s' % v\<close> and \<open>u'{}'.format(v)\<close> insert for a value \<open>v\<close>: a string is inserted
  as it is, an integer in decimal, \<open>None\<close> and the booleans by name. The rendering of
  lists and dictionaries (Python's \<open>repr\<close> of their elements) is a parameter, \<open>repr\<close>.
\<close>

fun py_str :: "(pyval \<Rightarrow> string) \<Rightarrow> pyval \<Rightarrow> string" where
  "py_str repr PNone = ''None''"
| "py_str repr (PBool b) = (if b then ''True'' else ''False'')"
| "py_str repr (PInt i) = str_int i"
| "py_str repr (PStr s) = s"
| "py_str repr (PList xs) = repr (PList xs)"
| "py_str repr (PDict kvs) = repr (PDict kvs)"

text \<open>\<open>v[key]\<close> for a string key: only a dictionary can be subscripted by a string.\<close>

fun getitem :: "pyval \<Rightarrow> string \<Rightarrow> error + pyval" where
  "getitem (PDict kvs) key =
     (case map_of kvs key of None \<Rightarrow> Inl (KeyError key) | Some v \<Rightarrow> Inr v)"
| "getitem v key = Inl TypeError"

section \<open>The error translator\<close>

text \<open>
  Modelled from the spec: the exception class \<open>ApiError\<close> (sentry.integrations.exceptions)
  is not among the sources. The spec gives it as \<open>ApiError{status, body}\<close>: it carries the
  HTTP status code (\<open>code\<close>, \<open>None\<close> when no code was given) and the upstream body parsed
  as JSON (\<open>json\<close>, \<open>None\<close> when there is no JSON body). Every other exception is
  \<open>OtherException\<close>.
\<close>

datatype exception =
    ApiError (code: "int option") (json: pyval)
  | OtherException

text \<open>
  The table \<open>API_ERRORS\<close>. The constants \<open>ERR_UNAUTHORIZED\<close> and \<open>ERR_INTERNAL\<close>
  (sentry.integrations.constants) are not among the sources and are parameters.
\<close>

definition API_ERRORS :: "string \<Rightarrow> (int \<times> string) list" where
  "API_ERRORS ERR_UNAUTHORIZED =
     [(404, ''Gitlab returned a 404 Not Found error. If this repository exists, ensure''
            @ '' that your installation has permission to access this repository''),
      (401, ERR_UNAUTHORIZED)]"

text \<open>\<open>API_ERRORS.get(exc.code)\<close>: \<open>None\<close> for a code that is \<open>None\<close> or not in the table.\<close>

definition API_ERRORS_get :: "string \<Rightarrow> int option \<Rightarrow> string option" where
  "API_ERRORS_get ERR_UNAUTHORIZED c =
     (case c of None \<Rightarrow> None | Some n \<Rightarrow> map_of (API_ERRORS ERR_UNAUTHORIZED) n)"

text \<open>
  \<open>exc.json.get('message', 'unknown error') if exc.json else 'unknown error'\<close>: a falsy
  body gives the default; a truthy body that is not a dictionary has no \<open>get\<close>.
\<close>

definition upstream_message :: "pyval \<Rightarrow> error + pyval" where
  "upstream_message j =
     (if truthy j then
        (case j of
           PDict kvs \<Rightarrow>
             Inr (case map_of kvs ''message'' of
                    None \<Rightarrow> PStr ''unknown error'' | Some m \<Rightarrow> m)
         | _ \<Rightarrow> Inl AttributeError)
      else Inr (PStr ''unknown error''))"

definition code_value :: "int option \<Rightarrow> pyval" where
  "code_value c = (case c of None \<Rightarrow> PNone | Some n \<Rightarrow> PInt n)"

text \<open>
  The formatted message for a status that the table does not translate. The status is
  rendered as \<open>%s\<close> renders \<open>exc.code\<close>.
\<close>

definition communication_error :: "(pyval \<Rightarrow> string) \<Rightarrow> int option \<Rightarrow> pyval \<Rightarrow> error + string" where
  "communication_error repr c j =
     bind_err (upstream_message j) (\<lambda>m.
       Inr (''Error Communicating with Gitlab (HTTP '' @ py_str repr (code_value c)
            @ ''): '' @ py_str repr m))"

text \<open>
  \<open>message_from_error\<close>. \<open>if message\<close> holds for a table entry that is not the empty
  string.
\<close>

definition message_from_error ::
  "(pyval \<Rightarrow> string) \<Rightarrow> string \<Rightarrow> string \<Rightarrow> exception \<Rightarrow> error + string" where
  "message_from_error repr ERR_UNAUTHORIZED ERR_INTERNAL exc =
     (case exc of
        ApiError c j \<Rightarrow>
          (case API_ERRORS_get ERR_UNAUTHORIZED c of
             None \<Rightarrow> communication_error repr c j
           | Some message \<Rightarrow>
               if message \<noteq> [] then Inr message else communication_error repr c j)
      | OtherException \<Rightarrow> Inr ERR_INTERNAL)"

section \<open>The stored OAuth data\<close>

text \<open>
  \<open>get_oauth_data\<close>: \<open>payload['access_token']\<close> raises \<open>KeyError\<close> when the key is
  missing. A dictionary is the list of its items; \<open>data[k] = v\<close> is \<open>AList.update\<close>, which
  replaces the value of a key that is there and appends a new key.
\<close>

definition get_oauth_data :: "(string \<times> pyval) list \<Rightarrow> error + (string \<times> pyval) list" where
  "get_oauth_data payload =
     (case map_of payload ''access_token'' of
        None \<Rightarrow> Inl (KeyError ''access_token'')
      | Some tok \<Rightarrow>
          (let data = [(''access_token'', tok)];
               data = (case map_of payload ''refresh_token'' of
                         None \<Rightarrow> data
                       | Some v \<Rightarrow> AList.update ''refresh_token'' v data);
               data = (case map_of payload ''token_type'' of
                         None \<Rightarrow> data
                       | Some v \<Rightarrow> AList.update ''token_type'' v data)
           in Inr data))"

section \<open>Reinstalling\<close>

text \<open>\<open>s.split(c)\<close>: the segments between the occurrences of \<open>c\<close>, never an empty list.\<close>

fun split_on :: "char \<Rightarrow> string \<Rightarrow> string list" where
  "split_on c [] = [[]]"
| "split_on c (x # xs) =
     (if x = c then [] # split_on c xs
      else (case split_on c xs of [] \<Rightarrow> [[x]] | w # ws \<Rightarrow> (x # w) # ws))"

text \<open>
  The integration model that \<open>self.model\<close> is: its external id and its metadata
  dictionary. \<open>reinstall_repositories\<close> is inherited from \<open>IntegrationInstallation\<close>, which
  is not among the sources: it is a parameter that reads the model and acts on the stored
  repositories, a state of its own. \<open>split(':')[1]\<close> raises \<open>IndexError\<close> when there is
  no second segment, before anything is written.
\<close>

record model =
  external_id :: string
  metadata :: "(string \<times> pyval) list"

definition reinstall ::
  "(model \<Rightarrow> 'r \<Rightarrow> error option \<times> 'r) \<Rightarrow> model \<times> 'r \<Rightarrow> error option \<times> (model \<times> 'r)" where
  "reinstall reinstall_repositories st =
     (case st of (m, repos) \<Rightarrow>
        (case split_on CHR '':'' (external_id m) of
           s0 # installation_id # rest \<Rightarrow>
             (let m' = m\<lparr>metadata :=
                          AList.update ''installation_id'' (PStr installation_id) (metadata m)\<rparr>
              in (case reinstall_repositories m' repos of (r, repos') \<Rightarrow> (r, (m', repos'))))
         | _ \<Rightarrow> (Some IndexError, (m, repos))))"

section \<open>The installation form\<close>

text \<open>
  The form is a Django form bound to \<open>request.POST\<close>, here the list of the submitted
  fields. A required \<open>CharField\<close> rejects a missing or empty value. The checkbox of the
  optional \<open>BooleanField\<close> reads a missing value as \<open>False\<close> (a browser sends nothing for
  an unchecked box), the strings \<open>true\<close> and \<open>false\<close> in any case as the booleans, and
  any other string as its truth value. \<open>None\<close> stands for a validation error.
\<close>

type_synonym post = "(string \<times> string) list"

definition lower_char :: "char \<Rightarrow> char" where
  "lower_char c =
     (case map_of (zip ''ABCDEFGHIJKLMNOPQRSTUVWXYZ'' ''abcdefghijklmnopqrstuvwxyz'') c of
        None \<Rightarrow> c | Some l \<Rightarrow> l)"

definition lower :: "string \<Rightarrow> string" where
  "lower s = map lower_char s"

definition CheckboxInput_value :: "string option \<Rightarrow> bool" where
  "CheckboxInput_value v =
     (case v of
        None \<Rightarrow> False
      | Some s \<Rightarrow>
          if lower s = ''true'' then True
          else if lower s = ''false'' then False
          else s \<noteq> [])"

datatype field = CharField | BooleanField

fun field_clean :: "field \<Rightarrow> string option \<Rightarrow> pyval option" where
  "field_clean CharField None = None"
| "field_clean CharField (Some s) = (if s = [] then None else Some (PStr s))"
| "field_clean BooleanField v = Some (PBool (CheckboxInput_value v))"

definition InstallationForm_fields :: "(string \<times> field) list" where
  "InstallationForm_fields =
     [(''url'', CharField), (''name'', CharField), (''group'', CharField),
      (''verify_ssl'', BooleanField), (''client_id'', CharField),
      (''client_secret'', CharField)]"

text \<open>
  Cleaning visits every field: a field that fails is recorded in the errors, a field that
  passes gets its cleaned value in \<open>cleaned_data\<close>.
\<close>

fun full_clean :: "(string \<times> field) list \<Rightarrow> post \<Rightarrow> string list \<times> (string \<times> pyval) list" where
  "full_clean [] post = ([], [])"
| "full_clean ((key, f) # fs) post =
     (case full_clean fs post of (errors, cleaned) \<Rightarrow>
        (case field_clean f (map_of post key) of
           None \<Rightarrow> (key # errors, cleaned)
         | Some v \<Rightarrow> (errors, (key, v) # cleaned)))"

definition is_valid :: "post \<Rightarrow> bool" where
  "is_valid post = (fst (full_clean InstallationForm_fields post) = [])"

definition cleaned_data :: "post \<Rightarrow> (string \<times> pyval) list" where
  "cleaned_data post = snd (full_clean InstallationForm_fields post)"

text \<open>
  \<open>InstallationForm.__init__\<close> sets the initial value of \<open>verify_ssl\<close>: the value the
  checkbox shows when the form is rendered unbound.
\<close>

definition InstallationForm_initial :: "(string \<times> pyval) list" where
  "InstallationForm_initial = [(''verify_ssl'', PBool True)]"

section \<open>The network location of a URL\<close>

text \<open>
  \<open>urlparse(url).netloc\<close>, as \<open>urlsplit\<close> of the Python 2.7 standard library computes it.
  A scheme is split off when the text before the first colon is not empty and is
  \<open>http\<close>, or consists of scheme characters and is not followed by a port number. The
  network location is then what follows a leading \<open>//\<close>, up to the first \<open>/\<close>, \<open>?\<close> or
  \<open>#\<close>; without a leading \<open>//\<close> it is empty. A network location with \<open>[\<close> and no
  \<open>]\<close>, or the converse, raises \<open>ValueError\<close> (Invalid IPv6 URL).
\<close>

definition scheme_chars :: "char list" where
  "scheme_chars = ''abcdefghijklmnopqrstuvwxyzABCDEFGHIJKLMNOPQRSTUVWXYZ0123456789+-.''"

definition after_scheme :: "string \<Rightarrow> string" where
  "after_scheme u =
     (let s = takeWhile (\<lambda>c. c \<noteq> CHR '':'') u;
          rest = drop (Suc (length s)) u
      in if CHR '':'' \<in> set u \<and> s \<noteq> [] then
           (if s = ''http'' then rest
            else if list_all (\<lambda>c. c \<in> set scheme_chars) s
                    \<and> (rest = [] \<or> list_ex (\<lambda>c. c \<notin> set ''0123456789'') rest)
                 then rest
            else u)
         else u)"

definition is_delim :: "char \<Rightarrow> bool" where
  "is_delim c = (c = CHR ''/'' \<or> c = CHR ''?'' \<or> c = CHR ''#'')"

definition urlsplit_netloc :: "string \<Rightarrow> error + string" where
  "urlsplit_netloc u =
     (let rest = after_scheme u in
      if take 2 rest = ''//'' then
        (let netloc = takeWhile (\<lambda>c. \<not> is_delim c) (drop 2 rest) in
         if (CHR ''['' \<in> set netloc \<and> CHR '']'' \<notin> set netloc)
            \<or> (CHR '']'' \<in> set netloc \<and> CHR ''['' \<notin> set netloc)
         then Inl ValueError
         else Inr netloc)
      else Inr [])"

definition urlparse_netloc :: "pyval \<Rightarrow> error + string" where
  "urlparse_netloc v = (case v of PStr u \<Rightarrow> urlsplit_netloc u | _ \<Rightarrow> Inl AttributeError)"

section \<open>The configuration view\<close>

text \<open>
  The pipeline state is a dictionary; \<open>bind_state\<close> stores a value under a key.
  \<open>d.get(k)\<close> is \<open>dict_get\<close>, \<open>None\<close> for a missing key. \<open>dispatch\<close> answers with the next
  step of the pipeline, or with the rendered template and the unbound form.
\<close>

definition bind_state :: "string \<Rightarrow> pyval \<Rightarrow> (string \<times> pyval) list \<Rightarrow> (string \<times> pyval) list" where
  "bind_state key v state = AList.update key v state"

definition dict_get :: "(string \<times> pyval) list \<Rightarrow> string \<Rightarrow> pyval" where
  "dict_get d key = (case map_of d key of None \<Rightarrow> PNone | Some v \<Rightarrow> v)"

datatype outcome = NextStep | Rendered string "(string \<times> pyval) list"

definition oauth_config_information :: "(pyval \<Rightarrow> string) \<Rightarrow> (string \<times> pyval) list \<Rightarrow> pyval" where
  "oauth_config_information repr form_data =
     PDict [(''access_token_url'',
               PStr (''https://'' @ py_str repr (dict_get form_data ''url'') @ ''/oauth/token'')),
            (''authorize_url'',
               PStr (''https://'' @ py_str repr (dict_get form_data ''url'') @ ''/oauth/authorize'')),
            (''client_id'', dict_get form_data ''client_id''),
            (''client_secret'', dict_get form_data ''client_secret''),
            (''verify_ssl'', dict_get form_data ''verify_ssl'')]"

definition dispatch ::
  "(pyval \<Rightarrow> string) \<Rightarrow> post \<Rightarrow> (string \<times> pyval) list
     \<Rightarrow> error + outcome \<times> (string \<times> pyval) list" where
  "dispatch repr post state =
     (if is_valid post then
        (let form_data = cleaned_data post in
         bind_err (getitem (PDict form_data) ''url'') (\<lambda>u.
         bind_err (urlparse_netloc u) (\<lambda>netloc.
           (let form_data = AList.update ''url'' (PStr netloc) form_data;
                state = bind_state ''installation_data'' (PDict form_data) state;
                state = bind_state ''oauth_config_information''
                          (oauth_config_information repr form_data) state
            in Inr (NextStep, state)))))
      else Inr (Rendered ''sentry/integrations/gitlab-config.html'' InstallationForm_initial,
                state))"

text \<open>What \<open>dispatch\<close> binds for a valid submission whose url has the network location \<open>host\<close>.\<close>

definition bound_state ::
  "string \<Rightarrow> string \<Rightarrow> string \<Rightarrow> bool \<Rightarrow> string \<Rightarrow> string \<Rightarrow> (string \<times> pyval) list
     \<Rightarrow> (string \<times> pyval) list" where
  "bound_state host n g v ci cs state =
     bind_state ''oauth_config_information''
       (PDict [(''access_token_url'', PStr (''https://'' @ host @ ''/oauth/token'')),
               (''authorize_url'', PStr (''https://'' @ host @ ''/oauth/authorize'')),
               (''client_id'', PStr ci),
               (''client_secret'', PStr cs),
               (''verify_ssl'', PBool v)])
       (bind_state ''installation_data''
          (PDict [(''url'', PStr host), (''name'', PStr n), (''group'', PStr g),
                  (''verify_ssl'', PBool v), (''client_id'', PStr ci),
                  (''client_secret'', PStr cs)])
          state)"

section \<open>The group lookup\<close>

text \<open>
  A request as \<open>session.get\<close> receives it. The world is the network as the module sees
  it: what the remote side answers to a request (or the exception the transport raises),
  and the requests sent so far. \<open>session_get\<close> sends one request.
\<close>

record request =
  http_method :: string
  url :: string
  headers :: "(string \<times> string) list"
  verify :: pyval

record world =
  respond :: "request \<Rightarrow> error + response"
  sent :: "request list"

definition session_get :: "world \<Rightarrow> request \<Rightarrow> (error + response) \<times> world" where
  "session_get w req = (respond w req, w\<lparr>sent := sent w @ [req]\<rparr>)"

text \<open>
  \<open>resp.raise_for_status()\<close> of the \<open>requests\<close> library raises \<open>HTTPError\<close>, which
  carries the response, for a status from 400 to 599 and returns otherwise.
  \<open>resp.json()\<close> raises \<open>ValueError\<close> for a body that is not JSON.
\<close>

definition raise_for_status :: "response \<Rightarrow> error + unit" where
  "raise_for_status resp =
     (if 400 \<le> status_code resp \<and> status_code resp < 600 then Inl (HTTPError resp)
      else Inr ())"

definition resp_json :: "response \<Rightarrow> error + pyval" where
  "resp_json resp = (case json_body resp of None \<Rightarrow> Inl ValueError | Some v \<Rightarrow> Inr v)"

definition group_request :: "(pyval \<Rightarrow> string) \<Rightarrow> pyval \<Rightarrow> pyval \<Rightarrow> error + request" where
  "group_request repr access_token installation_data =
     bind_err (getitem installation_data ''url'') (\<lambda>u.
     bind_err (getitem installation_data ''group'') (\<lambda>g.
     bind_err (getitem installation_data ''verify_ssl'') (\<lambda>v.
       Inr \<lparr>http_method = ''GET'',
            url = ''https://'' @ py_str repr u @ ''/api/v4/groups/'' @ py_str repr g,
            headers = [(''Accept'', ''application/json''),
                       (''Authorization'', ''Bearer '' @ py_str repr access_token)],
            verify = v\<rparr>)))"

definition get_group_info ::
  "(pyval \<Rightarrow> string) \<Rightarrow> pyval \<Rightarrow> pyval \<Rightarrow> world \<Rightarrow> (error + pyval) \<times> world" where
  "get_group_info repr access_token installation_data w =
     (case group_request repr access_token installation_data of
        Inl e \<Rightarrow> (Inl e, w)
      | Inr req \<Rightarrow>
          (case session_get w req of (r, w') \<Rightarrow>
             (bind_err r (\<lambda>resp. bind_err (raise_for_status resp) (\<lambda>_. resp_json resp)),
              w')))"

section \<open>Building the integration\<close>

text \<open>\<open>sorted\<close> on strings: Python compares strings character by character, by code point.\<close>

fun str_le :: "string \<Rightarrow> string \<Rightarrow> bool" where
  "str_le [] ys = True"
| "str_le (x # xs) [] = False"
| "str_le (x # xs) (y # ys) =
     ((of_char x :: nat) < of_char y \<or> (x = y \<and> str_le xs ys))"

fun insort_str :: "string \<Rightarrow> string list \<Rightarrow> string list" where
  "insort_str x [] = [x]"
| "insort_str x (y # ys) = (if str_le x y then x # y # ys else y # insort_str x ys)"

definition sorted_py :: "string list \<Rightarrow> string list" where
  "sorted_py xs = foldr insort_str xs []"

text \<open>
  \<open>s.replace(old, new)\<close>: every occurrence of \<open>old\<close>, from the left and without overlap.
  An empty \<open>old\<close> matches before every character and at the end.
\<close>

function replace :: "string \<Rightarrow> string \<Rightarrow> string \<Rightarrow> string" where
  "replace old new s =
     (if old = [] then new @ concat (map (\<lambda>c. c # new) s)
      else if s = [] then []
      else if take (length old) s = old then new @ replace old new (drop (length old) s)
      else hd s # replace old new (tl s))"
  by pat_completeness auto
termination
  by (relation "measure (\<lambda>(old, new, s). length s)") auto

declare replace.simps [simp del]

definition str_replace :: "pyval \<Rightarrow> string \<Rightarrow> string \<Rightarrow> error + string" where
  "str_replace v old new =
     (case v of PStr s \<Rightarrow> Inr (replace old new s) | _ \<Rightarrow> Inl AttributeError)"

definition as_dict :: "pyval \<Rightarrow> error + (string \<times> pyval) list" where
  "as_dict v = (case v of PDict kvs \<Rightarrow> Inr kvs | _ \<Rightarrow> Inl TypeError)"

text \<open>
  The dictionary that \<open>build_integration\<close> returns, its entries evaluated in the order
  of the source. \<open>scopes\<close> is the sorted scope list.
\<close>

definition integration_dict ::
  "(pyval \<Rightarrow> string) \<Rightarrow> string list \<Rightarrow> pyval \<Rightarrow> (string \<times> pyval) list \<Rightarrow> pyval \<Rightarrow> pyval
     \<Rightarrow> error + pyval" where
  "integration_dict repr scopes installation_data oauth_data user group_info =
     bind_err (getitem installation_data ''url'') (\<lambda>base_url.
     bind_err (getitem group_info ''name'') (\<lambda>group_name.
     bind_err (getitem group_info ''id'') (\<lambda>group_id.
     bind_err (getitem group_info ''avatar_url'') (\<lambda>avatar_url.
     bind_err (getitem group_info ''web_url'') (\<lambda>web_url.
     bind_err (str_replace web_url ''https://'' []) (\<lambda>domain_name.
     bind_err (getitem installation_data ''verify_ssl'') (\<lambda>verify_ssl.
     bind_err (getitem user ''id'') (\<lambda>user_id.
       Inr (PDict
         [(''name'', group_name),
          (''external_id'', PStr (py_str repr base_url @ '':'' @ py_str repr group_id)),
          (''metadata'', PDict
             [(''icon'', avatar_url),
              (''domain_name'', PStr domain_name),
              (''scopes'', PList (map PStr scopes)),
              (''verify_ssl'', verify_ssl)]),
          (''user_identity'', PDict
             [(''type'', PStr ''gitlab''),
              (''external_id'', user_id),
              (''scopes'', PList (map PStr scopes)),
              (''data'', PDict oauth_data)])])))))))))"

text \<open>
  \<open>build_integration\<close>. The scope tuple \<open>GitlabIdentityProvider.oauth_scopes\<close> and the
  function \<open>get_user_info\<close> (sentry.identity.gitlab) are not among the sources and are
  parameters. The user is looked up before the group; an exception of either lookup ends
  the call.
\<close>

definition build_integration ::
  "(pyval \<Rightarrow> string) \<Rightarrow> string list
     \<Rightarrow> (pyval \<Rightarrow> pyval \<Rightarrow> world \<Rightarrow> (error + pyval) \<times> world)
     \<Rightarrow> (string \<times> pyval) list \<Rightarrow> world \<Rightarrow> (error + pyval) \<times> world" where
  "build_integration repr oauth_scopes get_user_info state w =
     (case bind_err (getitem (PDict state) ''identity'') (\<lambda>i.
           bind_err (getitem i ''data'') (\<lambda>data.
           bind_err (bind_err (as_dict data) get_oauth_data) (\<lambda>oauth_data.
           bind_err (getitem data ''access_token'') (\<lambda>tok.
           bind_err (getitem (PDict state) ''installation_data'') (\<lambda>inst.
             Inr (oauth_data, tok, inst)))))) of
        Inl e \<Rightarrow> (Inl e, w)
      | Inr (oauth_data, tok, inst) \<Rightarrow>
          (case get_user_info tok inst w of
             (Inl e, w1) \<Rightarrow> (Inl e, w1)
           | (Inr user, w1) \<Rightarrow>
               (case get_group_info repr tok inst w1 of
                  (Inl e, w2) \<Rightarrow> (Inl e, w2)
                | (Inr group_info, w2) \<Rightarrow>
                    (integration_dict repr (sorted_py oauth_scopes) inst oauth_data user
                       group_info,
                     w2))))"

section \<open>Properties of the error translator\<close>

lemma message_from_error_404:
  "message_from_error repr eu ei (ApiError (Some 404) j) =
     Inr (''Gitlab returned a 404 Not Found error. If this repository exists, ensure''
          @ '' that your installation has permission to access this repository'')"
  by (simp add: message_from_error_def API_ERRORS_get_def API_ERRORS_def)

lemma message_from_error_401:
  "eu \<noteq> [] \<Longrightarrow> message_from_error repr eu ei (ApiError (Some 401) j) = Inr eu"
  by (simp add: message_from_error_def API_ERRORS_get_def API_ERRORS_def)

lemma message_from_error_other_exception:
  "message_from_error repr eu ei OtherException = Inr ei"
  by (simp add: message_from_error_def)

lemma message_from_error_dict:
  "c \<noteq> Some 404 \<Longrightarrow> c \<noteq> Some 401 \<Longrightarrow>
   message_from_error repr eu ei (ApiError c (PDict kvs)) =
     Inr (''Error Communicating with Gitlab (HTTP '' @ py_str repr (code_value c) @ ''): ''
          @ (case map_of kvs ''message'' of
               None \<Rightarrow> ''unknown error'' | Some m \<Rightarrow> py_str repr m))"
  by (cases c; cases kvs)
     (auto simp: message_from_error_def API_ERRORS_get_def API_ERRORS_def
        communication_error_def upstream_message_def bind_err_def split: option.splits)

lemma message_from_error_falsy:
  "c \<noteq> Some 404 \<Longrightarrow> c \<noteq> Some 401 \<Longrightarrow> \<not> truthy j \<Longrightarrow>
   message_from_error repr eu ei (ApiError c j) =
     Inr (''Error Communicating with Gitlab (HTTP '' @ py_str repr (code_value c)
          @ ''): unknown error'')"
  by (cases c)
     (auto simp: message_from_error_def API_ERRORS_get_def API_ERRORS_def
        communication_error_def upstream_message_def bind_err_def)

lemma message_from_error_500_boom:
  "message_from_error repr eu ei (ApiError (Some 500) (PDict [(''message'', PStr ''boom'')])) =
     Inr ''Error Communicating with Gitlab (HTTP 500): boom''"
  by (simp add: message_from_error_def API_ERRORS_get_def API_ERRORS_def
        communication_error_def upstream_message_def bind_err_def code_value_def
        str_int_def str_nat.simps)

text \<open>
  C1. The translator is not total: for an \<open>ApiError\<close> whose status is not in the table and
  whose JSON body is a non-empty list (or any other truthy value that is not a
  dictionary), \<open>exc.json.get\<close> raises \<open>AttributeError\<close> and no message is produced.
\<close>

theorem message_from_error_list_body:
  "message_from_error repr eu ei (ApiError (Some 500) (PList [PInt 1])) = Inl AttributeError"
  by (simp add: message_from_error_def API_ERRORS_get_def API_ERRORS_def
        communication_error_def upstream_message_def bind_err_def)

section \<open>Properties of the stored OAuth data\<close>

lemma get_oauth_data_KeyError:
  "map_of payload ''access_token'' = None \<Longrightarrow>
   get_oauth_data payload = Inl (KeyError ''access_token'')"
  by (simp add: get_oauth_data_def)

lemma get_oauth_data_eq:
  "map_of payload ''access_token'' = Some tok \<Longrightarrow>
   get_oauth_data payload =
     Inr ((''access_token'', tok)
          # (case map_of payload ''refresh_token'' of
               None \<Rightarrow> [] | Some v \<Rightarrow> [(''refresh_token'', v)])
          @ (case map_of payload ''token_type'' of
               None \<Rightarrow> [] | Some v \<Rightarrow> [(''token_type'', v)]))"
  by (cases "map_of payload ''refresh_token''"; cases "map_of payload ''token_type''")
     (simp_all add: get_oauth_data_def)

text \<open>
  C4. For a token payload (a dictionary with an \<open>access_token\<close>), \<open>get_oauth_data\<close>
  returns a dictionary that has the payload's \<open>access_token\<close>, has \<open>refresh_token\<close> and
  \<open>token_type\<close> exactly when the payload has them, with the payload's values, and has no
  other key: a key the payload lacks is not in the result at all.
\<close>

theorem get_oauth_data_keys:
  assumes "map_of payload ''access_token'' = Some tok"
  shows "\<exists>data. get_oauth_data payload = Inr data
           \<and> map_of data ''access_token'' = Some tok
           \<and> map_of data ''refresh_token'' = map_of payload ''refresh_token''
           \<and> map_of data ''token_type'' = map_of payload ''token_type''
           \<and> (\<forall>k. k \<noteq> ''access_token'' \<and> k \<noteq> ''refresh_token'' \<and> k \<noteq> ''token_type''
                  \<longrightarrow> map_of data k = None)"
proof -
  let ?r = "map_of payload ''refresh_token''" and ?t = "map_of payload ''token_type''"
  let ?d = "(''access_token'', tok)
          # (case ?r of None \<Rightarrow> [] | Some v \<Rightarrow> [(''refresh_token'', v)])
          @ (case ?t of None \<Rightarrow> [] | Some v \<Rightarrow> [(''token_type'', v)])"
  have 1: "get_oauth_data payload = Inr ?d"
    by (rule get_oauth_data_eq [of payload tok, OF assms])
  have 2: "map_of ?d ''access_token'' = Some tok" by simp
  have 3: "map_of ?d ''refresh_token'' = ?r"
    by (cases ?r; cases ?t) simp_all
  have 4: "map_of ?d ''token_type'' = ?t"
    by (cases ?r; cases ?t) simp_all
  have 5: "map_of ?d k = None"
    if "k \<noteq> ''access_token'' \<and> k \<noteq> ''refresh_token'' \<and> k \<noteq> ''token_type''" for k
    using that by (cases ?r; cases ?t) simp_all
  from 1 2 3 4 5 show ?thesis by blast
qed

theorem get_oauth_data_keys_witness:
  "\<exists>data. get_oauth_data [(''access_token'', PStr ''tok''), (''scope'', PStr ''api sudo''),
                            (''token_type'', PStr ''bearer'')] = Inr data
     \<and> map_of data ''access_token'' = Some (PStr ''tok'')
     \<and> map_of data ''refresh_token'' = None
     \<and> map_of data ''token_type'' = Some (PStr ''bearer'')
     \<and> map_of data ''scope'' = None"
proof -
  let ?p = "[(''access_token'', PStr ''tok''), (''scope'', PStr ''api sudo''),
             (''token_type'', PStr ''bearer'')]"
  have a: "map_of ?p ''access_token'' = Some (PStr ''tok'')" by simp
  have r: "map_of ?p ''refresh_token'' = None" by simp
  have t: "map_of ?p ''token_type'' = Some (PStr ''bearer'')" by simp
  have s: "''scope'' \<noteq> ''access_token'' \<and> ''scope'' \<noteq> ''refresh_token''
           \<and> ''scope'' \<noteq> ''token_type''" by simp
  obtain data where d: "get_oauth_data ?p = Inr data
      \<and> map_of data ''access_token'' = Some (PStr ''tok'')
      \<and> map_of data ''refresh_token'' = map_of ?p ''refresh_token''
      \<and> map_of data ''token_type'' = map_of ?p ''token_type''
      \<and> (\<forall>k. k \<noteq> ''access_token'' \<and> k \<noteq> ''refresh_token'' \<and> k \<noteq> ''token_type''
             \<longrightarrow> map_of data k = None)"
    using get_oauth_data_keys [of ?p "PStr ''tok''", OF a] ..
  note n = d [THEN conjunct2, THEN conjunct2, THEN conjunct2, THEN conjunct2,
    THEN spec, of "''scope''", THEN mp, OF s]
  from d n show ?thesis
    unfolding r t by (intro exI [of _ data]) simp
qed

section \<open>Properties of reinstalling\<close>

lemma split_on_not_Nil: "split_on c s \<noteq> []"
  by (induction s) (auto split: list.splits)

lemma split_on_hd: "hd (split_on c s) = takeWhile (\<lambda>x. x \<noteq> c) s"
  by (induction s) (auto split: list.splits simp: split_on_not_Nil)

lemma split_on_tl:
  "c \<in> set s \<Longrightarrow> tl (split_on c s) = split_on c (tl (dropWhile (\<lambda>x. x \<noteq> c) s))"
  by (induction s) (auto split: list.splits simp: split_on_not_Nil)

lemma split_on_no_sep: "c \<notin> set s \<Longrightarrow> split_on c s = [s]"
  by (induction s) auto

lemma split_on_two_iff: "2 \<le> length (split_on c s) \<longleftrightarrow> c \<in> set s"
proof
  assume "2 \<le> length (split_on c s)"
  then show "c \<in> set s" by (rule contrapos_pp) (simp add: split_on_no_sep)
next
  assume "c \<in> set s"
  then have "tl (split_on c s) \<noteq> []" by (simp add: split_on_tl split_on_not_Nil)
  then show "2 \<le> length (split_on c s)" by (cases "split_on c s") (auto simp: Suc_le_eq)
qed

lemma split_on_second:
  assumes "c \<in> set s"
  shows "\<exists>rest. split_on c s =
           takeWhile (\<lambda>x. x \<noteq> c) s
           # takeWhile (\<lambda>x. x \<noteq> c) (tl (dropWhile (\<lambda>x. x \<noteq> c) s)) # rest"
proof -
  let ?t = "tl (dropWhile (\<lambda>x. x \<noteq> c) s)"
  have "split_on c s = hd (split_on c s) # tl (split_on c s)"
    by (simp add: split_on_not_Nil)
  also have "tl (split_on c s) = split_on c ?t" by (rule split_on_tl [OF assms])
  also have "split_on c ?t = hd (split_on c ?t) # tl (split_on c ?t)"
    by (simp add: split_on_not_Nil)
  finally show ?thesis by (simp add: split_on_hd)
qed

text \<open>
  C10. An external id has at least two colon-separated segments exactly when it contains
  a colon. Then \<open>reinstall\<close> stores the second segment, the text between the first colon
  and the second (or the end), under \<open>installation_id\<close> in the metadata, leaves every
  other metadata key and the external id as they were, and goes on to reinstall the
  repositories. Without a colon it raises \<open>IndexError\<close> and the model is not updated.
\<close>

theorem reinstall_installation_id:
  "(2 \<le> length (split_on CHR '':'' (external_id m)) \<longleftrightarrow> CHR '':'' \<in> set (external_id m))
   \<and> (2 \<le> length (split_on CHR '':'' (external_id m)) \<longrightarrow>
        (let seg = takeWhile (\<lambda>x. x \<noteq> CHR '':'')
                     (tl (dropWhile (\<lambda>x. x \<noteq> CHR '':'') (external_id m)));
             m' = m\<lparr>metadata := AList.update ''installation_id'' (PStr seg) (metadata m)\<rparr>
         in split_on CHR '':'' (external_id m) ! 1 = seg
            \<and> map_of (metadata m') ''installation_id'' = Some (PStr seg)
            \<and> (\<forall>k. k \<noteq> ''installation_id'' \<longrightarrow> map_of (metadata m') k = map_of (metadata m) k)
            \<and> external_id m' = external_id m
            \<and> reinstall rr (m, repos) = (fst (rr m' repos), (m', snd (rr m' repos)))))
   \<and> (CHR '':'' \<notin> set (external_id m) \<longrightarrow>
        reinstall rr (m, repos) = (Some IndexError, (m, repos)))"
proof (intro conjI impI)
  show "2 \<le> length (split_on CHR '':'' (external_id m)) \<longleftrightarrow> CHR '':'' \<in> set (external_id m)"
    by (rule split_on_two_iff)
next
  assume "2 \<le> length (split_on CHR '':'' (external_id m))"
  then have "CHR '':'' \<in> set (external_id m)" by (simp add: split_on_two_iff)
  from split_on_second [OF this] obtain rest where
    sp: "split_on CHR '':'' (external_id m) =
           takeWhile (\<lambda>x. x \<noteq> CHR '':'') (external_id m)
           # takeWhile (\<lambda>x. x \<noteq> CHR '':'')
               (tl (dropWhile (\<lambda>x. x \<noteq> CHR '':'') (external_id m))) # rest" ..
  show "let seg = takeWhile (\<lambda>x. x \<noteq> CHR '':'')
                     (tl (dropWhile (\<lambda>x. x \<noteq> CHR '':'') (external_id m)));
             m' = m\<lparr>metadata := AList.update ''installation_id'' (PStr seg) (metadata m)\<rparr>
         in split_on CHR '':'' (external_id m) ! 1 = seg
            \<and> map_of (metadata m') ''installation_id'' = Some (PStr seg)
            \<and> (\<forall>k. k \<noteq> ''installation_id'' \<longrightarrow> map_of (metadata m') k = map_of (metadata m) k)
            \<and> external_id m' = external_id m
            \<and> reinstall rr (m, repos) = (fst (rr m' repos), (m', snd (rr m' repos)))"
    by (simp add: reinstall_def sp Let_def update_conv' split: prod.splits)
next
  assume "CHR '':'' \<notin> set (external_id m)"
  then show "reinstall rr (m, repos) = (Some IndexError, (m, repos))"
    by (simp add: reinstall_def split_on_no_sep)
qed

theorem reinstall_installation_id_witness:
  "2 \<le> length (split_on CHR '':'' ''gitlab.example.com:42:x'')
   \<and> split_on CHR '':'' ''gitlab.example.com:42:x'' ! 1 = ''42''
   \<and> reinstall (\<lambda>m r. (None, r))
        (\<lparr>external_id = ''gitlab.example.com:42:x'', metadata = [(''icon'', PNone)]\<rparr>, ()) =
      (None, (\<lparr>external_id = ''gitlab.example.com:42:x'',
                metadata = [(''icon'', PNone), (''installation_id'', PStr ''42'')]\<rparr>, ()))
   \<and> CHR '':'' \<notin> set ''gitlab''
   \<and> reinstall (\<lambda>m r. (None, r)) (\<lparr>external_id = ''gitlab'', metadata = []\<rparr>, ()) =
      (Some IndexError, (\<lparr>external_id = ''gitlab'', metadata = []\<rparr>, ()))"
  using reinstall_installation_id
    [of "\<lparr>external_id = ''gitlab.example.com:42:x'', metadata = [(''icon'', PNone)]\<rparr>"
        "\<lambda>m r. (None, r)" "()"]
    reinstall_installation_id
    [of "\<lparr>external_id = ''gitlab'', metadata = []\<rparr>" "\<lambda>m r. (None, r)" "()"]
  by (simp add: Let_def)

section \<open>Properties of the group lookup\<close>

lemma group_request_eq:
  assumes "getitem installation_data ''url'' = Inr u"
    and "getitem installation_data ''group'' = Inr g"
    and "getitem installation_data ''verify_ssl'' = Inr v"
  shows "group_request repr access_token installation_data =
     Inr \<lparr>http_method = ''GET'',
          url = ''https://'' @ py_str repr u @ ''/api/v4/groups/'' @ py_str repr g,
          headers = [(''Accept'', ''application/json''),
                     (''Authorization'', ''Bearer '' @ py_str repr access_token)],
          verify = v\<rparr>"
  by (simp add: group_request_def bind_err_def assms)

lemma get_group_info_sends:
  "group_request repr access_token installation_data = Inr req \<Longrightarrow>
   get_group_info repr access_token installation_data w =
     (bind_err (respond w req) (\<lambda>resp. bind_err (raise_for_status resp) (\<lambda>_. resp_json resp)),
      w\<lparr>sent := sent w @ [req]\<rparr>)"
  by (simp add: get_group_info_def session_get_def)

lemma get_group_info_no_request:
  "group_request repr access_token installation_data = Inl e \<Longrightarrow>
   get_group_info repr access_token installation_data w = (Inl e, w)"
  by (simp add: get_group_info_def)

text \<open>
  C7. With the url, the group and the verify_ssl flag of the installation data, the group
  lookup sends exactly one request: a GET to \<open>https://{url}/api/v4/groups/{group}\<close> with
  the header \<open>Authorization: Bearer {access_token}\<close> (and \<open>Accept: application/json\<close>),
  its TLS verification set to the verify_ssl value of the installation data.
\<close>

theorem get_group_info_request:
  assumes "getitem installation_data ''url'' = Inr u"
    and "getitem installation_data ''group'' = Inr g"
    and "getitem installation_data ''verify_ssl'' = Inr v"
  shows "sent (snd (get_group_info repr access_token installation_data w)) =
     sent w @
     [\<lparr>http_method = ''GET'',
       url = ''https://'' @ py_str repr u @ ''/api/v4/groups/'' @ py_str repr g,
       headers = [(''Accept'', ''application/json''),
                  (''Authorization'', ''Bearer '' @ py_str repr access_token)],
       verify = v\<rparr>]"
proof -
  from assms have "group_request repr access_token installation_data =
     Inr \<lparr>http_method = ''GET'',
          url = ''https://'' @ py_str repr u @ ''/api/v4/groups/'' @ py_str repr g,
          headers = [(''Accept'', ''application/json''),
                     (''Authorization'', ''Bearer '' @ py_str repr access_token)],
          verify = v\<rparr>"
    by (rule group_request_eq)
  then show ?thesis by (simp add: get_group_info_sends)
qed

theorem get_group_info_request_witness:
  "sent (snd (get_group_info (\<lambda>v. [])
      (PStr ''tok'')
      (PDict [(''url'', PStr ''gitlab.example.com''), (''group'', PStr ''my-group''),
              (''verify_ssl'', PBool False)])
      \<lparr>respond = (\<lambda>r. Inl (RequestException ''unreachable'')), sent = []\<rparr>)) =
     [\<lparr>http_method = ''GET'',
       url = ''https://gitlab.example.com/api/v4/groups/my-group'',
       headers = [(''Accept'', ''application/json''), (''Authorization'', ''Bearer tok'')],
       verify = PBool False\<rparr>]"
  using get_group_info_request
    [of "PDict [(''url'', PStr ''gitlab.example.com''), (''group'', PStr ''my-group''),
              (''verify_ssl'', PBool False)]"
        "PStr ''gitlab.example.com''" "PStr ''my-group''" "PBool False"
        "\<lambda>v. []" "PStr ''tok''"
        "\<lparr>respond = (\<lambda>r. Inl (RequestException ''unreachable'')), sent = []\<rparr>"]
  by simp

text \<open>
  C8. When the remote side answers the request of the group lookup, the lookup raises the
  HTTP error of \<open>raise_for_status\<close>, which carries the response with its status code and
  body, exactly for a status from 400 to 599. For every other status it returns the
  parsed JSON body, and raises \<open>ValueError\<close> when the body is not JSON. One request is
  sent in each case: nothing is retried.
\<close>

theorem get_group_info_result:
  assumes "group_request repr access_token installation_data = Inr req"
    and "respond w req = Inr resp"
  shows "fst (get_group_info repr access_token installation_data w) =
           (if 400 \<le> status_code resp \<and> status_code resp < 600 then Inl (HTTPError resp)
            else (case json_body resp of None \<Rightarrow> Inl ValueError | Some v \<Rightarrow> Inr v))
         \<and> sent (snd (get_group_info repr access_token installation_data w)) = sent w @ [req]"
  using assms
  by (simp add: get_group_info_sends bind_err_def raise_for_status_def resp_json_def)

theorem get_group_info_result_witness:
  "fst (get_group_info (\<lambda>v. []) (PStr ''tok'')
      (PDict [(''url'', PStr ''gitlab.example.com''), (''group'', PStr ''g''),
              (''verify_ssl'', PBool True)])
      \<lparr>respond = (\<lambda>r. Inr \<lparr>status_code = 404,
                              json_body = Some (PDict [(''message'', PStr ''404 Not found'')])\<rparr>),
       sent = []\<rparr>) =
     Inl (HTTPError \<lparr>status_code = 404,
                      json_body = Some (PDict [(''message'', PStr ''404 Not found'')])\<rparr>)
   \<and> fst (get_group_info (\<lambda>v. []) (PStr ''tok'')
      (PDict [(''url'', PStr ''gitlab.example.com''), (''group'', PStr ''g''),
              (''verify_ssl'', PBool True)])
      \<lparr>respond = (\<lambda>r. Inr \<lparr>status_code = 200,
                              json_body = Some (PDict [(''id'', PInt 42)])\<rparr>),
       sent = []\<rparr>) = Inr (PDict [(''id'', PInt 42)])"
proof -
  let ?inst = "PDict [(''url'', PStr ''gitlab.example.com''), (''group'', PStr ''g''),
              (''verify_ssl'', PBool True)]"
  let ?req = "\<lparr>http_method = ''GET'', url = ''https://gitlab.example.com/api/v4/groups/g'',
       headers = [(''Accept'', ''application/json''), (''Authorization'', ''Bearer tok'')],
       verify = PBool True\<rparr>"
  let ?r404 = "\<lparr>status_code = 404,
                json_body = Some (PDict [(''message'', PStr ''404 Not found'')])\<rparr>"
  let ?r200 = "\<lparr>status_code = 200, json_body = Some (PDict [(''id'', PInt 42)])\<rparr>"
  have req: "group_request (\<lambda>v. []) (PStr ''tok'') ?inst = Inr ?req"
    by (simp add: group_request_def bind_err_def)
  have a: "respond \<lparr>respond = (\<lambda>r. Inr ?r404), sent = []\<rparr> ?req = Inr ?r404" by simp
  have b: "respond \<lparr>respond = (\<lambda>r. Inr ?r200), sent = []\<rparr> ?req = Inr ?r200" by simp
  from get_group_info_result [OF req a] get_group_info_result [OF req b]
  show ?thesis by simp
qed

text \<open>
  The claim as stated fails on both sides: a 200 answer whose body is not JSON raises, and
  a 304 answer, which is not 2xx, returns its body without raising.
\<close>

theorem get_group_info_result_counterexample:
  "fst (get_group_info (\<lambda>v. []) (PStr ''tok'')
      (PDict [(''url'', PStr ''gitlab.example.com''), (''group'', PStr ''g''),
              (''verify_ssl'', PBool True)])
      \<lparr>respond = (\<lambda>r. Inr \<lparr>status_code = 200, json_body = None\<rparr>), sent = []\<rparr>) =
     Inl ValueError
   \<and> fst (get_group_info (\<lambda>v. []) (PStr ''tok'')
      (PDict [(''url'', PStr ''gitlab.example.com''), (''group'', PStr ''g''),
              (''verify_ssl'', PBool True)])
      \<lparr>respond = (\<lambda>r. Inr \<lparr>status_code = 304, json_body = Some (PDict [])\<rparr>), sent = []\<rparr>) =
     Inr (PDict [])"
  by (simp add: get_group_info_def group_request_def session_get_def bind_err_def
        raise_for_status_def resp_json_def)

section \<open>Properties of the network location\<close>






lemma urlsplit_netloc_no_delim:
  "urlsplit_netloc u = Inr host \<Longrightarrow> list_all (\<lambda>c. \<not> is_delim c) host"
  by (auto simp: urlsplit_netloc_def Let_def list_all_iff split: if_splits dest: set_takeWhileD)

lemma urlsplit_netloc_cases:
  "urlsplit_netloc u = Inl ValueError \<or> (\<exists>host. urlsplit_netloc u = Inr host)"
  by (simp add: urlsplit_netloc_def Let_def)

section \<open>Properties of the installation form and the configuration view\<close>

lemma field_clean_CharField:
  "field_clean CharField v = (case v of None \<Rightarrow> None | Some s \<Rightarrow> if s = [] then None else Some (PStr s))"
  by (cases v) simp_all

lemma field_clean_CharField_None: "field_clean CharField v = None \<longleftrightarrow> v = None \<or> v = Some []"
  by (cases v) simp_all

lemma full_clean_valid:
  assumes "map_of post ''url'' = Some u" "u \<noteq> []"
    and "map_of post ''name'' = Some n" "n \<noteq> []"
    and "map_of post ''group'' = Some g" "g \<noteq> []"
    and "map_of post ''client_id'' = Some ci" "ci \<noteq> []"
    and "map_of post ''client_secret'' = Some cs" "cs \<noteq> []"
  shows "full_clean InstallationForm_fields post =
     ([], [(''url'', PStr u), (''name'', PStr n), (''group'', PStr g),
           (''verify_ssl'', PBool (CheckboxInput_value (map_of post ''verify_ssl''))),
           (''client_id'', PStr ci), (''client_secret'', PStr cs)])"
  by (simp add: InstallationForm_fields_def assms)

lemma is_valid_iff:
  "is_valid post \<longleftrightarrow>
     field_clean CharField (map_of post ''url'') \<noteq> None
     \<and> field_clean CharField (map_of post ''name'') \<noteq> None
     \<and> field_clean CharField (map_of post ''group'') \<noteq> None
     \<and> field_clean CharField (map_of post ''client_id'') \<noteq> None
     \<and> field_clean CharField (map_of post ''client_secret'') \<noteq> None"
  by (simp add: is_valid_def InstallationForm_fields_def split: option.splits prod.splits)

lemma is_valid_filled:
  "is_valid post \<longleftrightarrow>
     list_all (\<lambda>key. map_of post key \<noteq> None \<and> map_of post key \<noteq> Some [])
       [''url'', ''name'', ''group'', ''client_id'', ''client_secret'']"
  by (simp add: is_valid_iff field_clean_CharField_None)

lemma filled_obtain:
  assumes "v \<noteq> None \<and> v \<noteq> Some []"
  obtains s where "v = Some s" "s \<noteq> []"
  using assms by (cases v) simp_all

lemma is_valid_obtain:
  assumes "is_valid post"
  obtains u n g ci cs where
    "map_of post ''url'' = Some u" "u \<noteq> []"
    "map_of post ''name'' = Some n" "n \<noteq> []"
    "map_of post ''group'' = Some g" "g \<noteq> []"
    "map_of post ''client_id'' = Some ci" "ci \<noteq> []"
    "map_of post ''client_secret'' = Some cs" "cs \<noteq> []"
proof -
  from assms have
    1: "map_of post ''url'' \<noteq> None \<and> map_of post ''url'' \<noteq> Some []" and
    2: "map_of post ''name'' \<noteq> None \<and> map_of post ''name'' \<noteq> Some []" and
    3: "map_of post ''group'' \<noteq> None \<and> map_of post ''group'' \<noteq> Some []" and
    4: "map_of post ''client_id'' \<noteq> None \<and> map_of post ''client_id'' \<noteq> Some []" and
    5: "map_of post ''client_secret'' \<noteq> None \<and> map_of post ''client_secret'' \<noteq> Some []"
    by (simp_all add: is_valid_filled)
  from 1 obtain u where u: "map_of post ''url'' = Some u" "u \<noteq> []" by (rule filled_obtain)
  from 2 obtain n where n: "map_of post ''name'' = Some n" "n \<noteq> []" by (rule filled_obtain)
  from 3 obtain g where g: "map_of post ''group'' = Some g" "g \<noteq> []" by (rule filled_obtain)
  from 4 obtain ci where ci: "map_of post ''client_id'' = Some ci" "ci \<noteq> []"
    by (rule filled_obtain)
  from 5 obtain cs where cs: "map_of post ''client_secret'' = Some cs" "cs \<noteq> []"
    by (rule filled_obtain)
  from u n g ci cs show thesis by (rule that)
qed

lemma cleaned_data_valid:
  assumes "is_valid post"
    and "map_of post ''url'' = Some u" and "map_of post ''name'' = Some n"
    and "map_of post ''group'' = Some g" and "map_of post ''client_id'' = Some ci"
    and "map_of post ''client_secret'' = Some cs"
  shows "cleaned_data post =
     [(''url'', PStr u), (''name'', PStr n), (''group'', PStr g),
      (''verify_ssl'', PBool (CheckboxInput_value (map_of post ''verify_ssl''))),
      (''client_id'', PStr ci), (''client_secret'', PStr cs)]"
proof -
  from assms have "u \<noteq> []" "n \<noteq> []" "g \<noteq> []" "ci \<noteq> []" "cs \<noteq> []"
    by (simp_all add: is_valid_filled)
  with assms show ?thesis
    unfolding cleaned_data_def by (simp add: full_clean_valid)
qed

lemma dispatch_valid:
  assumes "is_valid post"
    and "map_of post ''url'' = Some u" and "map_of post ''name'' = Some n"
    and "map_of post ''group'' = Some g" and "map_of post ''client_id'' = Some ci"
    and "map_of post ''client_secret'' = Some cs"
  shows "dispatch repr post state =
     (case urlsplit_netloc u of
        Inl e \<Rightarrow> Inl e
      | Inr host \<Rightarrow>
          Inr (NextStep,
               bound_state host n g (CheckboxInput_value (map_of post ''verify_ssl'')) ci cs state))"
proof -
  note cd = cleaned_data_valid [OF assms]
  show ?thesis
    unfolding dispatch_def cd Let_def bound_state_def
    using assms(1)
    by (cases "urlsplit_netloc u")
       (simp_all add: bind_err_def urlparse_netloc_def oauth_config_information_def dict_get_def)
qed

lemma dispatch_invalid:
  "\<not> is_valid post \<Longrightarrow>
   dispatch repr post state =
     Inr (Rendered ''sentry/integrations/gitlab-config.html'' InstallationForm_initial, state)"
  by (simp add: dispatch_def)

lemma bound_state_oauth:
  "map_of (bound_state host n g v ci cs state) ''oauth_config_information'' =
     Some (PDict [(''access_token_url'', PStr (''https://'' @ host @ ''/oauth/token'')),
               (''authorize_url'', PStr (''https://'' @ host @ ''/oauth/authorize'')),
               (''client_id'', PStr ci),
               (''client_secret'', PStr cs),
               (''verify_ssl'', PBool v)])"
  by (simp add: bound_state_def bind_state_def update_conv')

lemma bound_state_installation_data:
  "map_of (bound_state host n g v ci cs state) ''installation_data'' =
     Some (PDict [(''url'', PStr host), (''name'', PStr n), (''group'', PStr g),
                  (''verify_ssl'', PBool v), (''client_id'', PStr ci),
                  (''client_secret'', PStr cs)])"
  by (simp add: bound_state_def bind_state_def update_conv')




text \<open>
  Outside these submissions the form does not protect \<open>dispatch\<close>: the url is a
  \<open>CharField\<close>, and a url whose network location has an unmatched square bracket passes
  the form and makes \<open>urlparse\<close> raise \<open>ValueError\<close>.
\<close>

lemma dispatch_unmatched_bracket:
  "is_valid [(''url'', ''http://[''), (''name'', ''Sentry''), (''group'', ''my-group''),
             (''client_id'', ''id1''), (''client_secret'', ''s3cret'')]
   \<and> dispatch (\<lambda>v. [])
        [(''url'', ''http://[''), (''name'', ''Sentry''), (''group'', ''my-group''),
         (''client_id'', ''id1''), (''client_secret'', ''s3cret'')] [] = Inl ValueError"
  by (simp add: dispatch_def is_valid_def cleaned_data_def InstallationForm_fields_def
        bind_err_def urlparse_netloc_def urlsplit_netloc_def after_scheme_def is_delim_def)

lemma dispatch_NextStep_valid:
  "dispatch repr post state = Inr (NextStep, state') \<Longrightarrow> is_valid post"
  by (rule ccontr) (simp add: dispatch_invalid)

lemma dispatch_bound_verify_ssl:
  assumes "dispatch repr post state = Inr (NextStep, state')"
  shows "bind_err (getitem (PDict state') ''installation_data'') (\<lambda>d. getitem d ''verify_ssl'') =
           Inr (PBool (CheckboxInput_value (map_of post ''verify_ssl'')))"
    and "bind_err (getitem (PDict state') ''oauth_config_information'')
           (\<lambda>d. getitem d ''verify_ssl'') =
           Inr (PBool (CheckboxInput_value (map_of post ''verify_ssl'')))"
proof -
  have v: "is_valid post" by (rule dispatch_NextStep_valid [OF assms])
  then obtain u n g ci cs where f:
    "map_of post ''url'' = Some u" "map_of post ''name'' = Some n"
    "map_of post ''group'' = Some g" "map_of post ''client_id'' = Some ci"
    "map_of post ''client_secret'' = Some cs"
    by (rule is_valid_obtain)
  note d = dispatch_valid [OF v f, of repr state]
  let ?v = "CheckboxInput_value (map_of post ''verify_ssl'')"
  from assms d obtain host where
    "state' = bound_state host n g ?v ci cs state"
    by (cases "urlsplit_netloc u") (simp_all, blast)
  then show "bind_err (getitem (PDict state') ''installation_data'') (\<lambda>d. getitem d ''verify_ssl'') =
           Inr (PBool ?v)"
    and "bind_err (getitem (PDict state') ''oauth_config_information'')
           (\<lambda>d. getitem d ''verify_ssl'') = Inr (PBool ?v)"
    by (simp_all add: bound_state_installation_data bound_state_oauth bind_err_def)
qed

lemma CheckboxInput_value_omitted: "CheckboxInput_value None = False"
  by (simp add: CheckboxInput_value_def)

text \<open>
  C6. The verify_ssl field is optional, the other five fields are required: a submission
  without verify_ssl is valid exactly when url, name, group, client_id and client_secret
  are present and not empty. Its cleaned verify_ssl, and the verify_ssl of the
  installation data that \<open>dispatch\<close> binds, is false: an omitted checkbox is an unchecked
  one. The value true is the initial value of the unbound form, which \<open>dispatch\<close> renders
  when the submission is not valid.
\<close>

theorem verify_ssl_omitted:
  assumes "map_of post ''verify_ssl'' = None"
  shows "(is_valid post \<longleftrightarrow>
            list_all (\<lambda>key. map_of post key \<noteq> None \<and> map_of post key \<noteq> Some [])
              [''url'', ''name'', ''group'', ''client_id'', ''client_secret''])
    \<and> (is_valid post \<longrightarrow> map_of (cleaned_data post) ''verify_ssl'' = Some (PBool False))
    \<and> (\<forall>state'. dispatch repr post state = Inr (NextStep, state') \<longrightarrow>
          bind_err (getitem (PDict state') ''installation_data'') (\<lambda>d. getitem d ''verify_ssl'')
            = Inr (PBool False))
    \<and> (\<not> is_valid post \<longrightarrow>
          dispatch repr post state =
            Inr (Rendered ''sentry/integrations/gitlab-config.html'' InstallationForm_initial,
                 state))
    \<and> map_of InstallationForm_initial ''verify_ssl'' = Some (PBool True)"
proof (intro conjI impI allI)
  show "is_valid post \<longleftrightarrow>
            list_all (\<lambda>key. map_of post key \<noteq> None \<and> map_of post key \<noteq> Some [])
              [''url'', ''name'', ''group'', ''client_id'', ''client_secret'']"
    by (rule is_valid_filled)
next
  assume v: "is_valid post"
  then obtain u n g ci cs where f:
    "map_of post ''url'' = Some u" "map_of post ''name'' = Some n"
    "map_of post ''group'' = Some g" "map_of post ''client_id'' = Some ci"
    "map_of post ''client_secret'' = Some cs"
    by (rule is_valid_obtain)
  show "map_of (cleaned_data post) ''verify_ssl'' = Some (PBool False)"
    unfolding cleaned_data_valid [OF v f] assms by (simp add: CheckboxInput_value_omitted)
next
  fix state'
  assume "dispatch repr post state = Inr (NextStep, state')"
  from dispatch_bound_verify_ssl(1) [OF this]
  show "bind_err (getitem (PDict state') ''installation_data'') (\<lambda>d. getitem d ''verify_ssl'')
            = Inr (PBool False)"
    unfolding assms CheckboxInput_value_omitted .
next
  assume "\<not> is_valid post"
  then show "dispatch repr post state =
            Inr (Rendered ''sentry/integrations/gitlab-config.html'' InstallationForm_initial,
                 state)"
    by (rule dispatch_invalid)
next
  show "map_of InstallationForm_initial ''verify_ssl'' = Some (PBool True)"
    by (simp add: InstallationForm_initial_def)
qed

theorem verify_ssl_omitted_witness:
  "map_of [(''url'', ''https://gitlab.example.com''), (''name'', ''Sentry''),
           (''group'', ''my-group''), (''client_id'', ''id1''), (''client_secret'', ''s3cret'')]
     ''verify_ssl'' = None
   \<and> is_valid [(''url'', ''https://gitlab.example.com''), (''name'', ''Sentry''),
           (''group'', ''my-group''), (''client_id'', ''id1''), (''client_secret'', ''s3cret'')]
   \<and> map_of (cleaned_data [(''url'', ''https://gitlab.example.com''), (''name'', ''Sentry''),
           (''group'', ''my-group''), (''client_id'', ''id1''), (''client_secret'', ''s3cret'')])
       ''verify_ssl'' = Some (PBool False)"
proof -
  let ?p = "[(''url'', ''https://gitlab.example.com''), (''name'', ''Sentry''),
           (''group'', ''my-group''), (''client_id'', ''id1''), (''client_secret'', ''s3cret'')]"
  have o: "map_of ?p ''verify_ssl'' = None" by simp
  have f: "list_all (\<lambda>key. map_of ?p key \<noteq> None \<and> map_of ?p key \<noteq> Some [])
              [''url'', ''name'', ''group'', ''client_id'', ''client_secret'']" by simp
  note t = verify_ssl_omitted [OF o, of "\<lambda>v. []" "[]"]
  from t f have v: "is_valid ?p" by (elim conjE) (rule iffD2)
  from t v have "map_of (cleaned_data ?p) ''verify_ssl'' = Some (PBool False)"
    by (elim conjE) (erule (1) mp)
  with o v show ?thesis by (intro conjI)
qed

text \<open>
  The claim as stated fails: a valid submission without verify_ssl binds installation data
  whose verify_ssl is false, not true.
\<close>

theorem verify_ssl_omitted_counterexample:
  "dispatch (\<lambda>v. [])
     [(''url'', ''https://gitlab.example.com''), (''name'', ''Sentry''),
      (''group'', ''my-group''), (''client_id'', ''id1''), (''client_secret'', ''s3cret'')] [] =
   Inr (NextStep,
        [(''installation_data'', PDict
            [(''url'', PStr ''gitlab.example.com''), (''name'', PStr ''Sentry''),
             (''group'', PStr ''my-group''), (''verify_ssl'', PBool False),
             (''client_id'', PStr ''id1''), (''client_secret'', PStr ''s3cret'')]),
         (''oauth_config_information'', PDict
            [(''access_token_url'', PStr ''https://gitlab.example.com/oauth/token''),
             (''authorize_url'', PStr ''https://gitlab.example.com/oauth/authorize''),
             (''client_id'', PStr ''id1''), (''client_secret'', PStr ''s3cret''),
             (''verify_ssl'', PBool False)])])"
  by (simp add: dispatch_def is_valid_def cleaned_data_def InstallationForm_fields_def
        bind_err_def urlparse_netloc_def urlsplit_netloc_def after_scheme_def is_delim_def
        scheme_chars_def bind_state_def oauth_config_information_def dict_get_def
        CheckboxInput_value_def)

section \<open>Properties of building the integration\<close>

lemma bind_err_Inr:
  "bind_err r f = Inr y \<longleftrightarrow> (\<exists>x. r = Inr x \<and> f x = Inr y)"
  by (cases r) (simp_all add: bind_err_def)

lemma getitem_Inr:
  "getitem v key = Inr x \<longleftrightarrow> (\<exists>kvs. v = PDict kvs \<and> map_of kvs key = Some x)"
  by (cases v) (simp_all split: option.splits)

lemma getitem_PDict_Inr: "getitem (PDict kvs) key = Inr x \<longleftrightarrow> map_of kvs key = Some x"
  by (simp split: option.splits)

lemma str_replace_Inr:
  "str_replace v old new = Inr s \<longleftrightarrow> (\<exists>t. v = PStr t \<and> s = replace old new t)"
  by (cases v) (auto simp: str_replace_def)

lemma as_dict_Inr: "as_dict v = Inr kvs \<longleftrightarrow> v = PDict kvs"
  by (cases v) (simp_all add: as_dict_def)

lemma integration_dict_success:
  assumes "integration_dict repr scopes inst oauth_data user group_info = Inr integ"
  obtains base_url group_name group_id avatar_url web_url verify_ssl user_id where
    "getitem inst ''url'' = Inr base_url"
    "getitem group_info ''name'' = Inr group_name"
    "getitem group_info ''id'' = Inr group_id"
    "getitem group_info ''avatar_url'' = Inr avatar_url"
    "getitem group_info ''web_url'' = Inr (PStr web_url)"
    "getitem inst ''verify_ssl'' = Inr verify_ssl"
    "getitem user ''id'' = Inr user_id"
    "integ = PDict
         [(''name'', group_name),
          (''external_id'', PStr (py_str repr base_url @ '':'' @ py_str repr group_id)),
          (''metadata'', PDict
             [(''icon'', avatar_url),
              (''domain_name'', PStr (replace ''https://'' [] web_url)),
              (''scopes'', PList (map PStr scopes)),
              (''verify_ssl'', verify_ssl)]),
          (''user_identity'', PDict
             [(''type'', PStr ''gitlab''),
              (''external_id'', user_id),
              (''scopes'', PList (map PStr scopes)),
              (''data'', PDict oauth_data)])]"
proof -
  from assms obtain base_url where 1: "getitem inst ''url'' = Inr base_url"
    unfolding integration_dict_def bind_err_Inr by (elim exE conjE)
  from assms obtain group_name where 2: "getitem group_info ''name'' = Inr group_name"
    unfolding integration_dict_def bind_err_Inr by (elim exE conjE)
  from assms obtain group_id where 3: "getitem group_info ''id'' = Inr group_id"
    unfolding integration_dict_def bind_err_Inr by (elim exE conjE)
  from assms obtain avatar_url where 4: "getitem group_info ''avatar_url'' = Inr avatar_url"
    unfolding integration_dict_def bind_err_Inr by (elim exE conjE)
  from assms obtain w where 5: "getitem group_info ''web_url'' = Inr w"
    and "\<exists>d. str_replace w ''https://'' [] = Inr d"
    unfolding integration_dict_def bind_err_Inr by (elim exE conjE) blast
  then obtain web_url where 6: "w = PStr web_url"
    unfolding str_replace_Inr by (elim exE conjE)
  from assms obtain verify_ssl where 7: "getitem inst ''verify_ssl'' = Inr verify_ssl"
    unfolding integration_dict_def bind_err_Inr by (elim exE conjE)
  from assms obtain user_id where 8: "getitem user ''id'' = Inr user_id"
    unfolding integration_dict_def bind_err_Inr by (elim exE conjE)
  have r: "str_replace (PStr web_url) ''https://'' [] = Inr (replace ''https://'' [] web_url)"
    by (simp add: str_replace_def)
  from assms have "integ = PDict
         [(''name'', group_name),
          (''external_id'', PStr (py_str repr base_url @ '':'' @ py_str repr group_id)),
          (''metadata'', PDict
             [(''icon'', avatar_url),
              (''domain_name'', PStr (replace ''https://'' [] web_url)),
              (''scopes'', PList (map PStr scopes)),
              (''verify_ssl'', verify_ssl)]),
          (''user_identity'', PDict
             [(''type'', PStr ''gitlab''),
              (''external_id'', user_id),
              (''scopes'', PList (map PStr scopes)),
              (''data'', PDict oauth_data)])]"
    unfolding integration_dict_def 1 2 3 4 5 6 7 8 by (simp add: bind_err_def r)
  with 1 2 3 4 5 [unfolded 6] 7 8 show thesis by (rule that)
qed

lemma build_integration_success:
  assumes "build_integration repr scopes gui state w = (Inr integ, w')"
  obtains idn payload oauth_data tok inst user w1 group_info where
    "map_of state ''identity'' = Some idn"
    "getitem idn ''data'' = Inr (PDict payload)"
    "get_oauth_data payload = Inr oauth_data"
    "map_of payload ''access_token'' = Some tok"
    "map_of state ''installation_data'' = Some inst"
    "gui tok inst w = (Inr user, w1)"
    "get_group_info repr tok inst w1 = (Inr group_info, w')"
    "integration_dict repr (sorted_py scopes) inst oauth_data user group_info = Inr integ"
proof -
  let ?pre = "bind_err (getitem (PDict state) ''identity'') (\<lambda>i.
           bind_err (getitem i ''data'') (\<lambda>data.
           bind_err (bind_err (as_dict data) get_oauth_data) (\<lambda>oauth_data.
           bind_err (getitem data ''access_token'') (\<lambda>tok.
           bind_err (getitem (PDict state) ''installation_data'') (\<lambda>inst.
             Inr (oauth_data, tok, inst))))))"
  from assms obtain oauth_data tok inst where pre: "?pre = Inr (oauth_data, tok, inst)"
    unfolding build_integration_def by (cases ?pre) (auto split: prod.splits)
  from pre obtain idn data where
    a: "getitem (PDict state) ''identity'' = Inr idn" "getitem idn ''data'' = Inr data"
     "bind_err (as_dict data) get_oauth_data = Inr oauth_data"
     "getitem data ''access_token'' = Inr tok"
     "getitem (PDict state) ''installation_data'' = Inr inst"
    unfolding bind_err_Inr by (elim exE conjE) simp
  from a(3) obtain payload where p: "data = PDict payload" "get_oauth_data payload = Inr oauth_data"
    unfolding bind_err_Inr as_dict_Inr by (elim exE conjE) simp
  from assms obtain user w1 where u: "gui tok inst w = (Inr user, w1)"
    unfolding build_integration_def pre
    by (cases "gui tok inst w"; cases "fst (gui tok inst w)") simp_all
  from assms obtain group_info where g: "get_group_info repr tok inst w1 = (Inr group_info, w')"
    and i: "integration_dict repr (sorted_py scopes) inst oauth_data user group_info = Inr integ"
    unfolding build_integration_def pre
    by (cases "get_group_info repr tok inst w1"; cases "fst (get_group_info repr tok inst w1)")
       (simp_all add: u)
  from a(1) [unfolded getitem_PDict_Inr] a(2) [unfolded p(1)] p(2)
    a(4) [unfolded p(1) getitem_PDict_Inr] a(5) [unfolded getitem_PDict_Inr] u g i
  show thesis by (rule that)
qed

text \<open>
  C2. When \<open>build_integration\<close> succeeds, the external id of the integration is the url of
  the installation data, a colon, and the id of the group that the group lookup returned,
  each rendered as \<open>format\<close> renders it.
\<close>

theorem build_integration_external_id:
  assumes run: "build_integration repr oauth_scopes gui state w = (Inr integ, w')"
    and inst: "map_of state ''installation_data'' = Some inst"
    and base_url: "getitem inst ''url'' = Inr base_url"
    and tok: "bind_err (getitem (PDict state) ''identity'') (\<lambda>i.
               bind_err (getitem i ''data'') (\<lambda>d. getitem d ''access_token'')) = Inr tok"
    and user: "gui tok inst w = (Inr user, w1)"
    and group_info: "get_group_info repr tok inst w1 = (Inr group_info, w2)"
    and group_id: "getitem group_info ''id'' = Inr group_id"
  shows "getitem integ ''external_id'' =
           Inr (PStr (py_str repr base_url @ '':'' @ py_str repr group_id))"
proof -
  from run obtain idn payload oauth_data tok' inst' user' w1' group_info' where b:
    "map_of state ''identity'' = Some idn"
    "getitem idn ''data'' = Inr (PDict payload)"
    "map_of payload ''access_token'' = Some tok'"
    "map_of state ''installation_data'' = Some inst'"
    "gui tok' inst' w = (Inr user', w1')"
    "get_group_info repr tok' inst' w1' = (Inr group_info', w')"
    "integration_dict repr (sorted_py oauth_scopes) inst' oauth_data user' group_info' = Inr integ"
    by (rule build_integration_success)
  from inst b(4) have 1: "inst' = inst" by simp
  from tok have 2: "tok' = tok" by (simp add: bind_err_def b(1) b(2) b(3))
  from user b(5) have 3: "w1' = w1" unfolding 1 2 by simp
  from group_info b(6) have 4: "group_info' = group_info" unfolding 1 2 3 by simp
  from b(7) obtain base_url' group_id' where i:
    "getitem inst ''url'' = Inr base_url'" "getitem group_info ''id'' = Inr group_id'"
    "getitem integ ''external_id'' =
       Inr (PStr (py_str repr base_url' @ '':'' @ py_str repr group_id'))"
    unfolding 1 4 by (rule integration_dict_success) simp
  from i(1) base_url have 5: "base_url' = base_url" by simp
  from i(2) group_id have 6: "group_id' = group_id" by simp
  from i(3) show ?thesis unfolding 5 6 .
qed

theorem build_integration_external_id_witness:
  "\<exists>integ w'.
     build_integration (\<lambda>v. []) [''sudo'', ''api'']
       (\<lambda>tok inst w. (Inr (PDict [(''id'', PInt 7)]), w))
       [(''installation_data'', PDict
           [(''url'', PStr ''gitlab.example.com''), (''name'', PStr ''Sentry''),
            (''group'', PStr ''my-group''), (''verify_ssl'', PBool True),
            (''client_id'', PStr ''id1''), (''client_secret'', PStr ''s3cret'')]),
        (''identity'', PDict
           [(''data'', PDict [(''access_token'', PStr ''tok''),
                              (''scope'', PStr ''read_user'')])])]
       \<lparr>respond = (\<lambda>r. Inr \<lparr>status_code = 200, json_body = Some (PDict
            [(''id'', PInt 42), (''name'', PStr ''My Group''), (''avatar_url'', PNone),
             (''web_url'', PStr ''https://gitlab.example.com/groups/my-group'')])\<rparr>),
         sent = []\<rparr> = (Inr integ, w')
     \<and> getitem integ ''external_id'' = Inr (PStr ''gitlab.example.com:42'')"
proof -
  let ?gui = "\<lambda>tok inst w. (Inr (PDict [(''id'', PInt 7)]), w)"
  let ?inst = "PDict
           [(''url'', PStr ''gitlab.example.com''), (''name'', PStr ''Sentry''),
            (''group'', PStr ''my-group''), (''verify_ssl'', PBool True),
            (''client_id'', PStr ''id1''), (''client_secret'', PStr ''s3cret'')]"
  let ?st = "[(''installation_data'', ?inst),
        (''identity'', PDict
           [(''data'', PDict [(''access_token'', PStr ''tok''),
                              (''scope'', PStr ''read_user'')])])]"
  let ?g = "PDict
            [(''id'', PInt 42), (''name'', PStr ''My Group''), (''avatar_url'', PNone),
             (''web_url'', PStr ''https://gitlab.example.com/groups/my-group'')]"
  let ?w = "\<lparr>respond = (\<lambda>r. Inr \<lparr>status_code = 200, json_body = Some ?g\<rparr>), sent = []\<rparr>"
  obtain integ w' where
    run: "build_integration (\<lambda>v. []) [''sudo'', ''api''] ?gui ?st ?w = (Inr integ, w')"
    by (simp add: build_integration_def bind_err_def as_dict_def get_oauth_data_def
        get_group_info_def group_request_def session_get_def raise_for_status_def
        resp_json_def integration_dict_def str_replace_def)
  obtain w2 where g: "get_group_info (\<lambda>v. []) (PStr ''tok'') ?inst ?w = (Inr ?g, w2)"
    by (simp add: get_group_info_def group_request_def session_get_def bind_err_def
          raise_for_status_def resp_json_def)
  have i: "map_of ?st ''installation_data'' = Some ?inst" by simp
  have u: "getitem ?inst ''url'' = Inr (PStr ''gitlab.example.com'')" by simp
  have t: "bind_err (getitem (PDict ?st) ''identity'') (\<lambda>i.
               bind_err (getitem i ''data'') (\<lambda>d. getitem d ''access_token'')) =
             Inr (PStr ''tok'')"
    by (simp add: bind_err_def)
  have us: "?gui (PStr ''tok'') ?inst ?w = (Inr (PDict [(''id'', PInt 7)]), ?w)" by simp
  have gid: "getitem ?g ''id'' = Inr (PInt 42)" by simp
  have r: "py_str (\<lambda>v. []) (PStr ''gitlab.example.com'') @ '':'' @ py_str (\<lambda>v. []) (PInt 42) =
      ''gitlab.example.com:42''"
    by (simp add: str_int_def str_nat.simps)
  from build_integration_external_id [OF run i u t us g gid]
  have "getitem integ ''external_id'' = Inr (PStr ''gitlab.example.com:42'')"
    unfolding r .
  with run show ?thesis by (intro exI conjI)
qed

lemma sorted_py_api_sudo:
  assumes "set oauth_scopes = {''api'', ''sudo''}" and "length oauth_scopes = 2"
  shows "sorted_py oauth_scopes = [''api'', ''sudo'']"
proof -
  from assms(2) obtain a b where ab: "oauth_scopes = [a, b]"
    by (cases oauth_scopes; cases "tl oauth_scopes") auto
  with assms(1) have "{a, b} = {''api'', ''sudo''}" by simp
  then have "a = ''api'' \<and> b = ''sudo'' \<or> a = ''sudo'' \<and> b = ''api''"
    unfolding doubleton_eq_iff .
  then show ?thesis
  proof
    assume "a = ''api'' \<and> b = ''sudo''"
    then show ?thesis unfolding ab by (simp add: sorted_py_def)
  next
    assume "a = ''sudo'' \<and> b = ''api''"
    then show ?thesis unfolding ab by (simp add: sorted_py_def)
  qed
qed

text \<open>
  C5. When the scope tuple of the identity provider consists of \<open>api\<close> and \<open>sudo\<close>, in
  either order, every integration that \<open>build_integration\<close> returns has the list
  \<open>["api", "sudo"]\<close> as the scopes of its metadata and of its user identity, whatever the
  token payload in the pipeline state holds.
\<close>

theorem build_integration_scopes:
  assumes "build_integration repr oauth_scopes gui state w = (Inr integ, w')"
    and "set oauth_scopes = {''api'', ''sudo''}" and "length oauth_scopes = 2"
  shows "bind_err (getitem integ ''metadata'') (\<lambda>m. getitem m ''scopes'') =
           Inr (PList [PStr ''api'', PStr ''sudo''])
       \<and> bind_err (getitem integ ''user_identity'') (\<lambda>m. getitem m ''scopes'') =
           Inr (PList [PStr ''api'', PStr ''sudo''])"
proof -
  from assms(1) obtain oauth_data inst user group_info where
    "integration_dict repr (sorted_py oauth_scopes) inst oauth_data user group_info = Inr integ"
    by (rule build_integration_success)
  then have i: "integration_dict repr [''api'', ''sudo''] inst oauth_data user group_info = Inr integ"
    unfolding sorted_py_api_sudo [OF assms(2,3)] .
  show ?thesis
    by (rule integration_dict_success [OF i]) (simp add: bind_err_def)
qed

theorem build_integration_scopes_witness:
  "set [''sudo'', ''api''] = {''api'', ''sudo''} \<and> length [''sudo'', ''api''] = 2
   \<and> (\<exists>integ w'.
     build_integration (\<lambda>v. []) [''sudo'', ''api'']
       (\<lambda>tok inst w. (Inr (PDict [(''id'', PInt 7)]), w))
       [(''installation_data'', PDict
           [(''url'', PStr ''gitlab.example.com''), (''name'', PStr ''Sentry''),
            (''group'', PStr ''my-group''), (''verify_ssl'', PBool True),
            (''client_id'', PStr ''id1''), (''client_secret'', PStr ''s3cret'')]),
        (''identity'', PDict
           [(''data'', PDict [(''access_token'', PStr ''tok''),
                              (''scope'', PStr ''read_user'')])])]
       \<lparr>respond = (\<lambda>r. Inr \<lparr>status_code = 200, json_body = Some (PDict
            [(''id'', PInt 42), (''name'', PStr ''My Group''), (''avatar_url'', PNone),
             (''web_url'', PStr ''https://gitlab.example.com/groups/my-group'')])\<rparr>),
         sent = []\<rparr> = (Inr integ, w')
     \<and> bind_err (getitem integ ''metadata'') (\<lambda>m. getitem m ''scopes'') =
           Inr (PList [PStr ''api'', PStr ''sudo''])
     \<and> bind_err (getitem integ ''user_identity'') (\<lambda>m. getitem m ''scopes'') =
           Inr (PList [PStr ''api'', PStr ''sudo'']))"
proof -
  let ?gui = "\<lambda>tok inst w. (Inr (PDict [(''id'', PInt 7)]), w)"
  let ?st = "[(''installation_data'', PDict
           [(''url'', PStr ''gitlab.example.com''), (''name'', PStr ''Sentry''),
            (''group'', PStr ''my-group''), (''verify_ssl'', PBool True),
            (''client_id'', PStr ''id1''), (''client_secret'', PStr ''s3cret'')]),
        (''identity'', PDict
           [(''data'', PDict [(''access_token'', PStr ''tok''),
                              (''scope'', PStr ''read_user'')])])]"
  let ?w = "\<lparr>respond = (\<lambda>r. Inr \<lparr>status_code = 200, json_body = Some (PDict
            [(''id'', PInt 42), (''name'', PStr ''My Group''), (''avatar_url'', PNone),
             (''web_url'', PStr ''https://gitlab.example.com/groups/my-group'')])\<rparr>),
         sent = []\<rparr>"
  have s: "set [''sudo'', ''api''] = {''api'', ''sudo''}" by (simp add: insert_commute)
  have l: "length [''sudo'', ''api''] = 2" by simp
  obtain integ w' where
    run: "build_integration (\<lambda>v. []) [''sudo'', ''api''] ?gui ?st ?w = (Inr integ, w')"
    by (simp add: build_integration_def bind_err_def as_dict_def get_oauth_data_def
        get_group_info_def group_request_def session_get_def raise_for_status_def
        resp_json_def integration_dict_def str_replace_def)
  note t = build_integration_scopes [OF run s l]
  from s l run t show ?thesis by (intro conjI exI) (elim conjE, assumption)+
qed

section \<open>From the form to the integration\<close>

text \<open>
  C9. The verify_ssl value that the form cleans from a submission is the value that
  \<open>dispatch\<close> binds in the installation data and in the OAuth config, and it is the
  verify_ssl of the metadata of every integration that \<open>build_integration\<close> returns from
  a pipeline state holding that installation data.
\<close>

theorem verify_ssl_round_trip:
  assumes d: "dispatch repr post state = Inr (NextStep, state')"
    and s: "map_of st ''installation_data'' = map_of state' ''installation_data''"
    and b: "build_integration repr oauth_scopes gui st w = (Inr integ, w')"
  shows "dict_get (cleaned_data post) ''verify_ssl'' =
           PBool (CheckboxInput_value (map_of post ''verify_ssl''))
    \<and> bind_err (getitem (PDict state') ''installation_data'') (\<lambda>d. getitem d ''verify_ssl'') =
           Inr (dict_get (cleaned_data post) ''verify_ssl'')
    \<and> bind_err (getitem (PDict state') ''oauth_config_information'')
           (\<lambda>d. getitem d ''verify_ssl'') = Inr (dict_get (cleaned_data post) ''verify_ssl'')
    \<and> bind_err (getitem integ ''metadata'') (\<lambda>m. getitem m ''verify_ssl'') =
           Inr (dict_get (cleaned_data post) ''verify_ssl'')"
proof -
  let ?v = "PBool (CheckboxInput_value (map_of post ''verify_ssl''))"
  have v: "is_valid post" by (rule dispatch_NextStep_valid [OF d])
  then obtain u n g ci cs where f:
    "map_of post ''url'' = Some u" "map_of post ''name'' = Some n"
    "map_of post ''group'' = Some g" "map_of post ''client_id'' = Some ci"
    "map_of post ''client_secret'' = Some cs"
    by (rule is_valid_obtain)
  have 1: "dict_get (cleaned_data post) ''verify_ssl'' = ?v"
    unfolding cleaned_data_valid [OF v f] by (simp add: dict_get_def)
  note 2 = dispatch_bound_verify_ssl(1) [OF d]
  note 3 = dispatch_bound_verify_ssl(2) [OF d]
  from b obtain oauth_data inst user group_info where
    i: "map_of st ''installation_data'' = Some inst"
    and j: "integration_dict repr (sorted_py oauth_scopes) inst oauth_data user group_info
              = Inr integ"
    by (rule build_integration_success)
  from i s have "map_of state' ''installation_data'' = Some inst" by simp
  with 2 have k: "getitem inst ''verify_ssl'' = Inr ?v" by (simp add: bind_err_def)
  have 4: "bind_err (getitem integ ''metadata'') (\<lambda>m. getitem m ''verify_ssl'') = Inr ?v"
    by (rule integration_dict_success [OF j]) (simp add: bind_err_def k)
  from 1 2 3 4 show ?thesis by simp
qed

theorem verify_ssl_round_trip_witness:
  "\<exists>state' integ w'.
     dispatch (\<lambda>v. [])
       [(''url'', ''https://gitlab.example.com''), (''name'', ''Sentry''),
        (''group'', ''my-group''), (''verify_ssl'', ''on''), (''client_id'', ''id1''),
        (''client_secret'', ''s3cret'')] [] = Inr (NextStep, state')
     \<and> build_integration (\<lambda>v. []) [''api'', ''sudo'']
         (\<lambda>tok inst w. (Inr (PDict [(''id'', PInt 7)]), w))
         (bind_state ''identity''
            (PDict [(''data'', PDict [(''access_token'', PStr ''tok'')])]) state')
         \<lparr>respond = (\<lambda>r. Inr \<lparr>status_code = 200, json_body = Some (PDict
              [(''id'', PInt 42), (''name'', PStr ''My Group''), (''avatar_url'', PNone),
               (''web_url'', PStr ''https://gitlab.example.com/groups/my-group'')])\<rparr>),
           sent = []\<rparr> = (Inr integ, w')
     \<and> bind_err (getitem integ ''metadata'') (\<lambda>m. getitem m ''verify_ssl'') = Inr (PBool True)"
proof -
  let ?p = "[(''url'', ''https://gitlab.example.com''), (''name'', ''Sentry''),
        (''group'', ''my-group''), (''verify_ssl'', ''on''), (''client_id'', ''id1''),
        (''client_secret'', ''s3cret'')]"
  let ?idn = "PDict [(''data'', PDict [(''access_token'', PStr ''tok'')])]"
  let ?gui = "\<lambda>tok inst w. (Inr (PDict [(''id'', PInt 7)]), w)"
  let ?w = "\<lparr>respond = (\<lambda>r. Inr \<lparr>status_code = 200, json_body = Some (PDict
              [(''id'', PInt 42), (''name'', PStr ''My Group''), (''avatar_url'', PNone),
               (''web_url'', PStr ''https://gitlab.example.com/groups/my-group'')])\<rparr>),
           sent = []\<rparr>"
  obtain state' where d: "dispatch (\<lambda>v. []) ?p [] = Inr (NextStep, state')"
    and st: "state' =
       [(''installation_data'', PDict
            [(''url'', PStr ''gitlab.example.com''), (''name'', PStr ''Sentry''),
             (''group'', PStr ''my-group''), (''verify_ssl'', PBool True),
             (''client_id'', PStr ''id1''), (''client_secret'', PStr ''s3cret'')]),
         (''oauth_config_information'', PDict
            [(''access_token_url'', PStr ''https://gitlab.example.com/oauth/token''),
             (''authorize_url'', PStr ''https://gitlab.example.com/oauth/authorize''),
             (''client_id'', PStr ''id1''), (''client_secret'', PStr ''s3cret''),
             (''verify_ssl'', PBool True)])]"
    by (simp add: dispatch_def is_valid_def cleaned_data_def InstallationForm_fields_def
        bind_err_def urlparse_netloc_def urlsplit_netloc_def after_scheme_def is_delim_def
        scheme_chars_def bind_state_def oauth_config_information_def dict_get_def
        CheckboxInput_value_def lower_def lower_char_def)
  have s: "map_of (bind_state ''identity'' ?idn state') ''installation_data'' =
           map_of state' ''installation_data''"
    by (simp add: bind_state_def update_conv')
  obtain integ w' where b:
    "build_integration (\<lambda>v. []) [''api'', ''sudo''] ?gui (bind_state ''identity'' ?idn state') ?w
       = (Inr integ, w')"
    unfolding st
    by (simp add: build_integration_def bind_err_def as_dict_def get_oauth_data_def
        get_group_info_def group_request_def session_get_def raise_for_status_def
        resp_json_def integration_dict_def str_replace_def bind_state_def)
  have cb: "CheckboxInput_value (map_of ?p ''verify_ssl'') = True"
    by (simp add: CheckboxInput_value_def lower_def lower_char_def)
  note t = verify_ssl_round_trip [OF d s b]
  from t have "bind_err (getitem integ ''metadata'') (\<lambda>m. getitem m ''verify_ssl'') =
      Inr (PBool True)"
    unfolding cb by simp
  with d b show ?thesis by (intro exI conjI)
qed

end
